theory Spec2Isabelle
  imports Complex_Main "HOL-Library.Word"
begin

section \<open>Conventions\<close>

text \<open>
  Python \<^verbatim>\<open>float\<close> values are modelled as exact \<^typ>\<open>real\<close> numbers and Python
  \<^verbatim>\<open>int\<close> values as \<^typ>\<open>int\<close>; rounding, overflow and NaN of IEEE-754 doubles
  are outside the model. A dictionary whose values are all numbers is a map
  \<^typ>\<open>string \<rightharpoonup> real\<close>; a dictionary with a fixed set of optional keys of different
  types is a record whose fields are options (\<^term>\<open>None\<close>: the key is absent).
\<close>

text \<open>The exceptions the modules raise, each with its message.\<close>

datatype py_error = ValueError string | TypeError string | NotImplementedError string

section \<open>ev\_calc.py: expected value and the viability gate\<close>

text \<open>
  The keys of a signal that \<^verbatim>\<open>compute_ev\<close> reads. The other keys (horizon, instrument,
  rationale, flags) are never read by it.
\<close>

record signal =
  p_success :: "real option"
  expected_delta :: "(string \<rightharpoonup> real) option"
  p_confidence :: "real option"

record ev_result =
  ev_gross :: real
  letf_decay :: real
  ev_net :: real
  viability_pass :: bool
  res_p_confidence :: real
  res_safety_margin :: real
  res_notes :: string

text \<open>\<^verbatim>\<open>d.get(k, default)\<close> on a dictionary of numbers.\<close>

definition dict_get :: "(string \<rightharpoonup> real) \<Rightarrow> string \<Rightarrow> real \<Rightarrow> real" where
  "dict_get d k dflt = (case d k of None \<Rightarrow> dflt | Some v \<Rightarrow> v)"

definition compute_ev ::
  "signal \<Rightarrow> (string \<rightharpoonup> real) option \<Rightarrow> real \<Rightarrow> real \<Rightarrow> real \<Rightarrow> ev_result" where
  "compute_ev sig decay_stats trading_costs slippage safety_margin =
    (let p = (case p_success sig of None \<Rightarrow> 0 | Some v \<Rightarrow> v);
         expected = (case expected_delta sig of None \<Rightarrow> Map.empty | Some e \<Rightarrow> e);
         fav = dict_get expected ''fav'' 0;
         neutral = dict_get expected ''neutral'' 0;
         unfav = dict_get expected ''unfav'' 0;
         gross = p * fav + (1 - p) * unfav;
         decay = (case decay_stats of
                    None \<Rightarrow> 0
                  | Some d \<Rightarrow> (let mean_decay = dict_get d ''mean'' 0 in max 0 (- mean_decay)));
         net = gross - decay - trading_costs - slippage;
         p_conf = (case p_confidence sig of None \<Rightarrow> 1 | Some v \<Rightarrow> v);
         confidence_gate = (p_conf \<ge> 0.7);
         pass = (net > safety_margin \<and> confidence_gate);
         msg = (if \<not> confidence_gate then ''Low model confidence; human review recommended.''
                else if net \<le> safety_margin then ''Net EV below safety margin.''
                else '''')
     in \<lparr> ev_gross = gross, letf_decay = decay, ev_net = net, viability_pass = pass,
          res_p_confidence = p_conf, res_safety_margin = safety_margin, res_notes = msg \<rparr>)"

text \<open>The signal and the decay statistics of the specification's worked example.\<close>

definition example_signal :: "real option \<Rightarrow> signal" where
  "example_signal conf =
     \<lparr> p_success = Some 0.8,
       expected_delta = Some [''fav'' \<mapsto> 0.10, ''neutral'' \<mapsto> 0, ''unfav'' \<mapsto> - 0.05],
       p_confidence = conf \<rparr>"

definition example_decay :: "(string \<rightharpoonup> real) option" where
  "example_decay = Some [''mean'' \<mapsto> - 0.01]"

section \<open>execution\_stub.py: the sandbox execution simulator\<close>

subsection \<open>Library functions the module calls\<close>

text \<open>
  A \<^verbatim>\<open>random.Random\<close> generator is modelled by the sequence of values its
  \<^verbatim>\<open>random()\<close> method still has to return; a draw takes the first and leaves the rest.
  The generator \<^verbatim>\<open>random.Random(seed)\<close> (the Mersenne Twister of the Python library)
  and \<^verbatim>\<open>float(s)\<close> on a string are parameters of the model.
\<close>

type_synonym rng = "nat \<Rightarrow> real"

record pylib =
  lib_Random :: "int \<Rightarrow> rng"
  lib_float :: "string \<Rightarrow> real option"

text \<open>\<^verbatim>\<open>rng.uniform(a, b)\<close> is \<^verbatim>\<open>a + (b - a) * rng.random()\<close>.\<close>

definition rng_uniform :: "rng \<Rightarrow> real \<Rightarrow> real \<Rightarrow> real \<times> rng" where
  "rng_uniform g a b = (a + (b - a) * g 0, \<lambda>i. g (Suc i))"

text \<open>\<^verbatim>\<open>str.upper\<close>, on ASCII letters.\<close>

definition upper_char :: "char \<Rightarrow> char" where
  "upper_char c =
     (let n = (of_char c :: nat)
      in if 97 \<le> n \<and> n \<le> 122
         then (case c of Char b0 b1 b2 b3 b4 b5 b6 b7 \<Rightarrow> Char b0 b1 b2 b3 b4 False b6 b7)
         else c)"

definition upper :: "string \<Rightarrow> string" where
  "upper s = map upper_char s"

subsection \<open>Orders, fills and reports\<close>

text \<open>An order dictionary: each key is optional.\<close>

record order =
  ord_ticker :: "string option"
  ord_side :: "string option"
  ord_qty :: "int option"
  ord_type :: "string option"
  ord_limit :: "real option"
  ord_algo :: "string option"
  ord_duration_minutes :: "int option"
  ord_slices :: "int option"
  ord_percent_of_adv :: "real option"

text \<open>
  The three shapes of fill dictionaries the module builds: a filled TWAP slice
  (\<^verbatim>\<open>slice, requested, filled, price\<close>, status \<^verbatim>\<open>filled\<close>), an unfilled TWAP slice
  (\<^verbatim>\<open>slice, requested\<close>, filled 0, price \<^verbatim>\<open>None\<close>, status \<^verbatim>\<open>not_filled\<close>), and
  the single fill of a market or limit order (\<^verbatim>\<open>qty, price\<close>, status \<^verbatim>\<open>filled\<close>).
\<close>

datatype fill =
    SliceFill int int int real
  | SliceNotFilled int int
  | ChildFill int real


fun fill_price :: "fill \<Rightarrow> real option" where
  "fill_price (SliceFill i requested filled price) = Some price"
| "fill_price (SliceNotFilled i requested) = None"
| "fill_price (ChildFill qty price) = Some price"

fun fill_status :: "fill \<Rightarrow> string" where
  "fill_status (SliceFill i requested filled price) = ''filled''"
| "fill_status (SliceNotFilled i requested) = ''not_filled''"
| "fill_status (ChildFill qty price) = ''filled''"

text \<open>The result dictionary of the market and limit helpers.\<close>

record exec_result =
  res_requested :: int
  res_filled :: int
  res_avg_fill_price :: "real option"
  res_fills :: "fill list"
  res_status :: string

text \<open>The per-order entry of the report, the plan-level metrics and the report.\<close>

record order_result =
  or_ticker :: "string option"
  or_requested_qty :: int
  or_filled_qty :: int
  or_avg_fill_price :: "real option"
  or_status :: string
  or_fills :: "fill list"

record metrics =
  total_requested :: int
  total_filled :: int
  notional_filled_usd :: real

record report =
  rep_status :: string
  rep_fills :: "order_result list"
  rep_metrics :: metrics

text \<open>
  The routing policy is absent, a string or a dictionary with the optional keys
  \<^verbatim>\<open>mode\<close>, \<^verbatim>\<open>percent\<close> and \<^verbatim>\<open>p\<close>.
\<close>

datatype sor_policy =
    SorStr string
  | SorDict "string option" "real option" "real option"

record sor =
  sor_mode :: string
  sor_percent :: real

record execution_plan =
  plan_orders :: "order list option"
  plan_sor_policy :: "sor_policy option"
  plan_max_slippage_bps :: "real option"

subsection \<open>The functions of the module\<close>

text \<open>
  Each function that draws from the generator returns the generator after the draw next to
  its result. A function called without a generator (\<^verbatim>\<open>rng=None\<close>) draws from a fresh
  \<^verbatim>\<open>Random(0)\<close> that nobody else sees.
\<close>

definition mock_fill_price ::
  "pylib \<Rightarrow> real \<Rightarrow> string \<Rightarrow> real \<Rightarrow> rng option \<Rightarrow> real \<times> rng option" where
  "mock_fill_price lib market_price side slippage_bps rng =
    (let g = (case rng of None \<Rightarrow> lib_Random lib 0 | Some g \<Rightarrow> g);
         sign = (if upper side = ''BUY'' then 1 else - 1);
         (jitter, g') = rng_uniform g (- 0.25) 0.25;
         slippage = slippage_bps * (1 + jitter) / 10000
     in (market_price * (1 + sign * slippage),
         (case rng of None \<Rightarrow> None | Some _ \<Rightarrow> Some g')))"

definition slice_capacity_from_adv :: "real \<Rightarrow> real \<Rightarrow> real \<Rightarrow> real \<Rightarrow> real \<Rightarrow> int" where
  "slice_capacity_from_adv adv_usd percent_of_adv slice_minutes minutes_per_day price =
    (if adv_usd \<le> 0 \<or> price \<le> 0 then 0
     else (let adv_per_minute = adv_usd / minutes_per_day;
               slice_adv_usd = adv_per_minute * slice_minutes;
               allowed_usd = slice_adv_usd * percent_of_adv
           in max 0 \<lfloor>allowed_usd / price\<rfloor>))"

text \<open>
  The loop of \<^verbatim>\<open>_simulate_twap_fill\<close> over \<^verbatim>\<open>range(slices)\<close>: the list argument holds
  the slice indices still to come, \<open>remaining\<close> and \<open>fills\<close> are the loop's variables.
  The \<^verbatim>\<open>break\<close> is the branch that returns without a recursive call. The call of
  \<^verbatim>\<open>time.sleep\<close> has no effect on the values and is left out.
\<close>

primrec twap_loop ::
  "pylib \<Rightarrow> order \<Rightarrow> real \<Rightarrow> real \<Rightarrow> real \<Rightarrow> real \<Rightarrow> int \<Rightarrow> int \<Rightarrow> real \<Rightarrow>
   int list \<Rightarrow> int \<Rightarrow> fill list \<Rightarrow> rng option \<Rightarrow> fill list \<times> int \<times> rng option" where
  "twap_loop lib order market_price adv_usd percent_of_adv slice_minutes qty slices slippage_bps
     [] remaining fills rng = (fills, remaining, rng)"
| "twap_loop lib order market_price adv_usd percent_of_adv slice_minutes qty slices slippage_bps
     (i # rest) remaining fills rng =
    (let slice_capacity = slice_capacity_from_adv adv_usd percent_of_adv slice_minutes 390 market_price;
         intended = \<lceil>real_of_int qty / real_of_int slices\<rceil>;
         allowed0 = (if slice_capacity > 0 then min intended slice_capacity else intended);
         allowed = (if allowed0 \<le> 0 \<and> remaining > 0 then min remaining 1 else allowed0);
         fill_qty = min allowed remaining
     in if fill_qty \<le> 0
        then twap_loop lib order market_price adv_usd percent_of_adv slice_minutes qty slices
               slippage_bps rest remaining (fills @ [SliceNotFilled (i + 1) intended]) rng
        else (let (price, rng') = mock_fill_price lib market_price
                                    (case ord_side order of None \<Rightarrow> ''BUY'' | Some s \<Rightarrow> s)
                                    slippage_bps rng;
                  fills' = fills @ [SliceFill (i + 1) intended fill_qty price];
                  remaining' = remaining - fill_qty
              in if remaining' \<le> 0 then (fills', remaining', rng')
                 else twap_loop lib order market_price adv_usd percent_of_adv slice_minutes qty
                        slices slippage_bps rest remaining' fills' rng'))"

definition simulate_twap_fill ::
  "pylib \<Rightarrow> order \<Rightarrow> real \<Rightarrow> real \<Rightarrow> real \<Rightarrow> int \<Rightarrow> int \<Rightarrow> real \<Rightarrow> rng option \<Rightarrow>
   fill list \<times> int \<times> rng option" where
  "simulate_twap_fill lib order market_price adv_usd percent_of_adv duration_minutes slices
     slippage_bps rng =
    (let qty = (case ord_qty order of None \<Rightarrow> 0 | Some q \<Rightarrow> q)
     in if qty \<le> 0 \<or> slices \<le> 0 then ([], 0, rng)
        else (let slice_minutes = real_of_int duration_minutes / real_of_int slices;
                  (fills, remaining, rng') =
                     twap_loop lib order market_price adv_usd percent_of_adv slice_minutes qty
                       slices slippage_bps (map int [0..<nat slices]) qty [] rng;
                  total_filled = qty - remaining
              in (fills, total_filled, rng')))"

definition execute_order_limit ::
  "pylib \<Rightarrow> order \<Rightarrow> real \<Rightarrow> real \<Rightarrow> rng option \<Rightarrow> exec_result \<times> rng option" where
  "execute_order_limit lib order market_price max_slippage_bps rng =
    (let side = upper (case ord_side order of None \<Rightarrow> ''BUY'' | Some s \<Rightarrow> s);
         qty = (case ord_qty order of None \<Rightarrow> 0 | Some q \<Rightarrow> q);
         result = \<lparr> res_requested = qty, res_filled = 0, res_avg_fill_price = None,
                    res_fills = [], res_status = ''not_filled'' \<rparr>
     in case ord_limit order of
          None \<Rightarrow> (result\<lparr> res_status := ''invalid_order'' \<rparr>, rng)
        | Some limit \<Rightarrow>
            if qty \<le> 0 then (result\<lparr> res_status := ''invalid_order'' \<rparr>, rng)
            else (let is_marketable =
                        (if side = ''BUY'' then limit \<ge> market_price else limit \<le> market_price)
                  in if \<not> is_marketable then (result\<lparr> res_status := ''no_fill'' \<rparr>, rng)
                     else (let (fill_price, rng') =
                                  mock_fill_price lib limit side max_slippage_bps rng
                           in (result\<lparr> res_filled := qty,
                                       res_avg_fill_price := Some fill_price,
                                       res_fills := [ChildFill qty fill_price],
                                       res_status := ''filled'' \<rparr>, rng'))))"

definition execute_order_market ::
  "pylib \<Rightarrow> order \<Rightarrow> real \<Rightarrow> real \<Rightarrow> rng option \<Rightarrow> exec_result \<times> rng option" where
  "execute_order_market lib order market_price max_slippage_bps rng =
    (let qty = (case ord_qty order of None \<Rightarrow> 0 | Some q \<Rightarrow> q);
         side = (case ord_side order of None \<Rightarrow> ''BUY'' | Some s \<Rightarrow> s)
     in if qty \<le> 0
        then (\<lparr> res_requested = 0, res_filled = 0, res_avg_fill_price = None,
                res_fills = [], res_status = ''invalid_order'' \<rparr>, rng)
        else (let (price, rng') = mock_fill_price lib market_price side max_slippage_bps rng
              in (\<lparr> res_requested = qty, res_filled = qty, res_avg_fill_price = Some price,
                    res_fills = [ChildFill qty price], res_status = ''filled'' \<rparr>, rng')))"

definition parse_sor_policy :: "pylib \<Rightarrow> sor_policy option \<Rightarrow> sor" where
  "parse_sor_policy lib sor_policy =
    (let default = \<lparr> sor_mode = ''percent_of_adv'', sor_percent = 0.05 \<rparr>
     in case sor_policy of
          None \<Rightarrow> default
        | Some (SorStr s) \<Rightarrow>
            if s = [] then default
            else if take 15 s = ''percent_of_adv=''
            then (case lib_float lib (drop 15 s) of
                    Some p \<Rightarrow> \<lparr> sor_mode = ''percent_of_adv'', sor_percent = p \<rparr>
                  | None \<Rightarrow> default)
            else default
        | Some (SorDict m percent p) \<Rightarrow>
            if m = None \<and> percent = None \<and> p = None then default
            else \<lparr> sor_mode = (case m of None \<Rightarrow> ''percent_of_adv'' | Some mode \<Rightarrow> mode),
                   sor_percent = (case percent of
                                    Some v \<Rightarrow> v
                                  | None \<Rightarrow> (case p of Some v \<Rightarrow> v | None \<Rightarrow> 0.05)) \<rparr>)"

text \<open>
  The sum \<^verbatim>\<open>sum(f["filled"] * f["price"] for f in slice_fills if f["filled"] > 0)\<close>
  of the TWAP branch.
\<close>

fun fill_value :: "fill \<Rightarrow> real" where
  "fill_value (SliceFill i requested filled price) =
     (if filled > 0 then real_of_int filled * price else 0)"
| "fill_value (SliceNotFilled i requested) = 0"
| "fill_value (ChildFill qty price) = (if qty > 0 then real_of_int qty * price else 0)"

text \<open>The body of the loop over the orders of a plan, for one order.\<close>

definition execute_one ::
  "pylib \<Rightarrow> sor \<Rightarrow> real \<Rightarrow> (string \<rightharpoonup> (string \<rightharpoonup> real)) option \<Rightarrow> order \<Rightarrow> rng option \<Rightarrow>
   order_result \<times> rng option" where
  "execute_one lib sor max_slippage_bps market_snapshot order rng =
    (let ticker = ord_ticker order;
         ord_type = upper (case ord_type order of None \<Rightarrow> ''MARKET'' | Some t \<Rightarrow> t);
         qty = (case ord_qty order of None \<Rightarrow> 0 | Some q \<Rightarrow> q);
         market_info =
           (case market_snapshot of
              None \<Rightarrow> Map.empty
            | Some snap \<Rightarrow>
                (case ticker of
                   None \<Rightarrow> Map.empty
                 | Some t \<Rightarrow> (case snap t of None \<Rightarrow> Map.empty | Some info \<Rightarrow> info)));
         market_price =
           (case market_info ''price'' of
              Some v \<Rightarrow> v
            | None \<Rightarrow> (case ord_limit order of Some l \<Rightarrow> l | None \<Rightarrow> 100));
         adv_usd = (case market_info ''adv'' of Some v \<Rightarrow> v | None \<Rightarrow> 0);
         order_result = \<lparr> or_ticker = ticker, or_requested_qty = qty, or_filled_qty = 0,
                          or_avg_fill_price = None, or_status = ''not_executed'',
                          or_fills = [] \<rparr>
     in if ord_type = ''ALG''
           \<or> upper (case ord_algo order of None \<Rightarrow> [] | Some a \<Rightarrow> a) = ''TWAP''
        then (let duration = (case ord_duration_minutes order of None \<Rightarrow> 30 | Some d \<Rightarrow> d);
                  slices = (case ord_slices order of None \<Rightarrow> 6 | Some s \<Rightarrow> s);
                  percent = (case ord_percent_of_adv order of
                               None \<Rightarrow> sor_percent sor | Some p \<Rightarrow> p);
                  (slice_fills, total_filled, rng') =
                     simulate_twap_fill lib order market_price adv_usd percent duration slices
                       max_slippage_bps rng
              in (order_result
                    \<lparr> or_fills := slice_fills,
                      or_filled_qty := total_filled,
                      or_status := (if total_filled \<ge> qty then ''filled''
                                    else if total_filled > 0 then ''partial'' else ''no_fill''),
                      or_avg_fill_price :=
                        (if total_filled > 0
                         then Some (sum_list (map fill_value slice_fills)
                                      / real_of_int total_filled)
                         else None) \<rparr>, rng'))
        else (let (res, rng') =
                    (if ord_type = ''MARKET''
                     then execute_order_market lib order market_price max_slippage_bps rng
                     else if ord_type = ''LIMIT''
                     then execute_order_limit lib order market_price max_slippage_bps rng
                     else execute_order_market lib order market_price max_slippage_bps rng)
              in (order_result
                    \<lparr> or_fills := res_fills res,
                      or_filled_qty := res_filled res,
                      or_avg_fill_price := res_avg_fill_price res,
                      or_status := res_status res \<rparr>, rng')))"

text \<open>The loop over the orders: \<open>fills_out\<close>, the metrics and the generator are its variables.\<close>

primrec execute_orders ::
  "pylib \<Rightarrow> sor \<Rightarrow> real \<Rightarrow> (string \<rightharpoonup> (string \<rightharpoonup> real)) option \<Rightarrow> order list \<Rightarrow>
   order_result list \<Rightarrow> metrics \<Rightarrow> rng option \<Rightarrow> order_result list \<times> metrics" where
  "execute_orders lib sor max_slippage_bps market_snapshot [] fills_out overall_metrics rng =
     (fills_out, overall_metrics)"
| "execute_orders lib sor max_slippage_bps market_snapshot (order # orders) fills_out
     overall_metrics rng =
    (let (order_result, rng') = execute_one lib sor max_slippage_bps market_snapshot order rng;
         m1 = overall_metrics
                \<lparr> total_requested := total_requested overall_metrics
                                        + or_requested_qty order_result \<rparr>;
         m2 = m1\<lparr> total_filled := total_filled m1 + or_filled_qty order_result \<rparr>;
         m3 = (case or_avg_fill_price order_result of
                 None \<Rightarrow> m2
               | Some avg \<Rightarrow>
                   m2\<lparr> notional_filled_usd :=
                          notional_filled_usd m2
                            + real_of_int (or_filled_qty order_result) * avg \<rparr>)
     in execute_orders lib sor max_slippage_bps market_snapshot orders
          (fills_out @ [order_result]) m3 rng')"

definition execute_order ::
  "pylib \<Rightarrow> execution_plan \<Rightarrow> string \<Rightarrow> (string \<rightharpoonup> (string \<rightharpoonup> real)) option \<Rightarrow> int option \<Rightarrow>
   py_error + report" where
  "execute_order lib execution_plan mode market_snapshot seed =
    (if mode \<noteq> ''sandbox''
     then Inl (NotImplementedError
                 ''Live broker integration is not implemented in execution_stub.'')
     else (let rng = lib_Random lib (case seed of None \<Rightarrow> 0 | Some s \<Rightarrow> s);
               sor = parse_sor_policy lib (plan_sor_policy execution_plan);
               max_slippage_bps =
                 (case plan_max_slippage_bps execution_plan of None \<Rightarrow> 5 | Some b \<Rightarrow> b);
               orders = (case plan_orders execution_plan of None \<Rightarrow> [] | Some os \<Rightarrow> os);
               (fills_out, overall_metrics) =
                  execute_orders lib sor max_slippage_bps market_snapshot orders []
                    \<lparr> total_requested = 0, total_filled = 0, notional_filled_usd = 0 \<rparr>
                    (Some rng)
           in Inr \<lparr> rep_status = ''ok'', rep_fills = fills_out,
                    rep_metrics = overall_metrics \<rparr>))"

text \<open>A generator that always returns one half and a parser that knows no string.\<close>

definition test_lib :: pylib where
  "test_lib = \<lparr> lib_Random = (\<lambda>seed i. 1/2), lib_float = (\<lambda>s. None) \<rparr>"

definition twap_order :: "int \<Rightarrow> int \<Rightarrow> int \<Rightarrow> order" where
  "twap_order q d s =
     \<lparr> ord_ticker = Some ''SSO'', ord_side = Some ''BUY'', ord_qty = Some q,
       ord_type = Some ''ALG'', ord_limit = None, ord_algo = Some ''TWAP'',
       ord_duration_minutes = Some d, ord_slices = Some s, ord_percent_of_adv = None \<rparr>"

text \<open>Auxiliary notions for the statements below, and concrete orders and plans.\<close>

text \<open>The quantity one slice takes, as the loop body computes it.\<close>

definition slice_fill_qty :: "int \<Rightarrow> int \<Rightarrow> int \<Rightarrow> int" where
  "slice_fill_qty cap intended remaining =
     (let allowed0 = (if cap > 0 then min intended cap else intended);
          allowed = (if allowed0 \<le> 0 \<and> remaining > 0 then min remaining 1 else allowed0)
      in min allowed remaining)"


definition limit_order :: "string \<Rightarrow> int \<Rightarrow> real option \<Rightarrow> order" where
  "limit_order s q l =
     \<lparr> ord_ticker = Some ''SPY'', ord_side = Some s, ord_qty = Some q,
       ord_type = Some ''LIMIT'', ord_limit = l, ord_algo = None,
       ord_duration_minutes = None, ord_slices = None, ord_percent_of_adv = None \<rparr>"

definition order_qty :: "order \<Rightarrow> int" where
  "order_qty order = (case ord_qty order of None \<Rightarrow> 0 | Some q \<Rightarrow> q)"

definition not_overfilled :: "order_result \<Rightarrow> bool" where
  "not_overfilled r \<longleftrightarrow> 0 \<le> or_filled_qty r \<and> or_filled_qty r \<le> or_requested_qty r"

definition market_order :: "string \<Rightarrow> int \<Rightarrow> order" where
  "market_order t q =
     \<lparr> ord_ticker = Some t, ord_side = Some ''BUY'', ord_qty = Some q,
       ord_type = Some ''MARKET'', ord_limit = None, ord_algo = None,
       ord_duration_minutes = None, ord_slices = None, ord_percent_of_adv = None \<rparr>"

definition test_plan :: execution_plan where
  "test_plan =
     \<lparr> plan_orders = Some [market_order ''SPY'' 10, twap_order 200 30 6],
       plan_sor_policy = Some (SorStr ''percent_of_adv=0.05''),
       plan_max_slippage_bps = Some 5 \<rparr>"

definition test_snapshot :: "(string \<rightharpoonup> (string \<rightharpoonup> real)) option" where
  "test_snapshot =
     Some [''SPY'' \<mapsto> [''price'' \<mapsto> 430.12, ''adv'' \<mapsto> 30000000],
           ''SSO'' \<mapsto> [''price'' \<mapsto> 45, ''adv'' \<mapsto> 8000000]]"

section \<open>decay\_sim.py: the bootstrap simulation of leveraged returns\<close>

subsection \<open>Library functions the module calls\<close>

text \<open>
  \<^verbatim>\<open>np.random.default_rng(seed).integers(low, high, size)\<close> is a parameter of the model:
  \<open>rng_integers seed low high size i\<close> is entry \<open>i\<close> of the array of \<open>size\<close> entries that
  the call returns. The constructor \<^verbatim>\<open>default_rng\<close> rejects a negative seed and
  \<^verbatim>\<open>integers\<close> rejects a negative size, both with a \<^verbatim>\<open>ValueError\<close>; the simulator
  below returns these errors before it reads the parameter.
\<close>

type_synonym np_integers = "int \<Rightarrow> nat \<Rightarrow> nat \<Rightarrow> nat \<Rightarrow> nat \<Rightarrow> nat"

text \<open>
  The aggregates of numpy on a one-dimensional array, given as a list. \<^verbatim>\<open>np.percentile\<close>
  with its default linear method reads the sorted array at the position
  \<open>(n - 1) * q / 100\<close> and interpolates between the two neighbours; \<^verbatim>\<open>np.median\<close> is the
  middle entry, or the mean of the two middle entries. On an empty array \<^verbatim>\<open>np.min\<close> and
  \<^verbatim>\<open>np.max\<close> raise a \<^verbatim>\<open>ValueError\<close>; the functions below are read on non-empty lists only.
\<close>

definition np_mean :: "real list \<Rightarrow> real" where
  "np_mean xs = sum_list xs / real (length xs)"

definition np_percentile :: "real list \<Rightarrow> real \<Rightarrow> real" where
  "np_percentile xs q =
    (let s = sort xs;
         n = length s;
         h = real (n - 1) * q / 100;
         lo = nat \<lfloor>h\<rfloor>;
         hi = min (lo + 1) (n - 1);
         g = h - real lo
     in s ! lo + (s ! hi - s ! lo) * g)"

definition np_median :: "real list \<Rightarrow> real" where
  "np_median xs =
    (let s = sort xs; n = length s
     in if even n then (s ! (n div 2 - 1) + s ! (n div 2)) / 2 else s ! (n div 2))"

definition np_min :: "real list \<Rightarrow> real" where
  "np_min xs = Min (set xs)"

definition np_max :: "real list \<Rightarrow> real" where
  "np_max xs = Max (set xs)"

subsection \<open>The simulator\<close>

record decay_stats =
  mean :: real
  median :: real
  p10 :: real
  p25 :: real
  p75 :: real
  p90 :: real
  worst :: real
  best :: real
  stats_trials :: int
  stats_window :: int
  stats_leverage :: real
  stats_results :: "real list option"

text \<open>
  The body of the loop over the start indices: the slice \<^verbatim>\<open>underlying_returns[s : s + window]\<close>,
  the daily factors clipped from below at -0.999, their product, minus one.
\<close>

definition path_return :: "real list \<Rightarrow> real \<Rightarrow> int \<Rightarrow> nat \<Rightarrow> real" where
  "path_return underlying_returns leverage window s =
    (let slice_r = take (nat window) (drop s underlying_returns);
         factors = map (\<lambda>r. max (1 + leverage * r) (- 0.999)) slice_r;
         cumulative = prod_list factors
     in cumulative - 1)"

definition simulate_lef_decay ::
  "np_integers \<Rightarrow> real list \<Rightarrow> real \<Rightarrow> int \<Rightarrow> int \<Rightarrow> int \<Rightarrow> bool \<Rightarrow> py_error + decay_stats" where
  "simulate_lef_decay rng_integers underlying_returns leverage window trials seed return_results =
    (if window < 1 then Inl (ValueError ''window must be >= 1'')
     else (let n = int (length underlying_returns)
           in if n < window
              then Inl (ValueError ''underlying_returns length must be at least window'')
              else if seed < 0 then Inl (ValueError ''expected non-negative integer'')
              else if trials < 0 then Inl (ValueError ''negative dimensions are not allowed'')
              else (let starts = map (rng_integers seed 0 (nat (n - window + 1)) (nat trials))
                                   [0..<nat trials];
                        results = map (path_return underlying_returns leverage window) starts
                    in if results = []
                       then Inl (ValueError
                         ''zero-size array to reduction operation minimum which has no identity'')
                       else Inr \<lparr> mean = np_mean results,
                                  median = np_median results,
                                  p10 = np_percentile results 10,
                                  p25 = np_percentile results 25,
                                  p75 = np_percentile results 75,
                                  p90 = np_percentile results 90,
                                  worst = np_min results,
                                  best = np_max results,
                                  stats_trials = trials,
                                  stats_window = window,
                                  stats_leverage = leverage,
                                  stats_results = (if return_results then Some results else None) \<rparr>)))"

text \<open>A generator for concrete runs: entry \<open>i\<close> of the drawn array is \<open>low + i mod (high - low)\<close>.\<close>

definition cyclic_integers :: np_integers where
  "cyclic_integers seed low high sz i = low + i mod (high - low)"

text \<open>Ten returns, for the runs below.\<close>

definition ten_returns :: "real list" where
  "ten_returns = [0.01, - 0.02, 0.03, 0.01, - 0.01, 0.02, 0, 0.01, - 0.03, 0.02]"



section \<open>audit.py: decision records and their audit hash\<close>

subsection \<open>Python values and the library\<close>

text \<open>
  The values a decision record holds: the values of JSON, nested dictionaries as lists of
  key-value pairs. A decision record itself is a dictionary from strings to such values.
\<close>

datatype pyval =
    PNone
  | PBool bool
  | PInt int
  | PFloat real
  | PStr string
  | PList "pyval list"
  | PDict "(string \<times> pyval) list"

type_synonym decision = "string \<rightharpoonup> pyval"

text \<open>The truth value of a Python value, as \<^verbatim>\<open>not v\<close> reads it.\<close>

fun py_truthy :: "pyval \<Rightarrow> bool" where
  "py_truthy PNone = False"
| "py_truthy (PBool b) = b"
| "py_truthy (PInt i) = (i \<noteq> 0)"
| "py_truthy (PFloat x) = (x \<noteq> 0)"
| "py_truthy (PStr s) = (s \<noteq> [])"
| "py_truthy (PList xs) = (xs \<noteq> [])"
| "py_truthy (PDict kvs) = (kvs \<noteq> [])"

text \<open>
  The library functions are parameters of the model: \<open>lib_dumps\<close> is
  \<^verbatim>\<open>json.dumps(obj, sort_keys=True, separators=(",", ":"), ensure_ascii=False).encode("utf-8")\<close>
  on a serialisable dictionary, and \<open>lib_sha256\<close> is the 256-bit digest of
  \<^verbatim>\<open>hashlib.sha256\<close>. Byte strings are strings. The identifier that \<^verbatim>\<open>uuid.uuid4().hex\<close>
  returns and the time that \<^verbatim>\<open>datetime.now(timezone.utc).isoformat()\<close> returns are
  arguments of the functions that call them.
\<close>

record audit_lib =
  lib_dumps :: "decision \<Rightarrow> string"
  lib_sha256 :: "string \<Rightarrow> 256 word"

text \<open>\<^verbatim>\<open>hexdigest\<close>: the 64 hexadecimal digits of a digest, the most significant first.\<close>

definition hex_digit :: "nat \<Rightarrow> char" where
  "hex_digit n = ''0123456789abcdef'' ! n"

definition hexdigest :: "256 word \<Rightarrow> string" where
  "hexdigest w = map (\<lambda>i. hex_digit (unat (drop_bit (4 * (63 - i)) w) mod 16)) [0..<64]"

subsection \<open>The functions of the module\<close>

definition canonical_json_bytes :: "audit_lib \<Rightarrow> decision \<Rightarrow> string" where
  "canonical_json_bytes lib obj = lib_dumps lib obj"

definition compute_audit_hash :: "audit_lib \<Rightarrow> decision \<Rightarrow> string" where
  "compute_audit_hash lib decision =
    (let copy = decision(''audit_hash'' := None);
         copy = copy(''signature'' := None);
         data = canonical_json_bytes lib copy;
         h = hexdigest (lib_sha256 lib data)
     in h)"

text \<open>\<^verbatim>\<open>k not in rec or not rec.get(k)\<close>.\<close>

definition missing_or_falsy :: "decision \<Rightarrow> string \<Rightarrow> bool" where
  "missing_or_falsy rec k = (case rec k of None \<Rightarrow> True | Some v \<Rightarrow> \<not> py_truthy v)"

definition make_decision_record ::
  "audit_lib \<Rightarrow> string \<Rightarrow> string \<Rightarrow> decision \<Rightarrow> bool \<Rightarrow> decision" where
  "make_decision_record lib uuid4_hex now_iso decision ensure_ids =
    (let rec = decision;
         rec = (if ensure_ids \<and> missing_or_falsy rec ''decision_id''
                then rec(''decision_id'' \<mapsto> PStr uuid4_hex) else rec);
         rec = (if ensure_ids \<and> missing_or_falsy rec ''timestamp_utc''
                then rec(''timestamp_utc'' \<mapsto> PStr now_iso) else rec)
     in rec(''audit_hash'' \<mapsto> PStr (compute_audit_hash lib rec)))"

text \<open>
  The message of the \<^verbatim>\<open>TypeError\<close> that \<^verbatim>\<open>decision["audit_hash"] + "|"\<close> raises when the
  stored value is not a string.
\<close>

fun type_name :: "pyval \<Rightarrow> string" where
  "type_name PNone = ''NoneType''"
| "type_name (PBool b) = ''bool''"
| "type_name (PInt i) = ''int''"
| "type_name (PFloat x) = ''float''"
| "type_name (PStr s) = ''str''"
| "type_name (PList xs) = ''list''"
| "type_name (PDict kvs) = ''dict''"

definition add_str_error :: "pyval \<Rightarrow> string" where
  "add_str_error v =
    (case v of
       PList xs \<Rightarrow> ''can only concatenate list (not '' @ [CHR 0x22] @ ''str'' @ [CHR 0x22]
                     @ '') to list''
     | _ \<Rightarrow> ''unsupported operand type(s) for +: '' @ [CHR 0x27] @ type_name v @ [CHR 0x27]
              @ '' and '' @ [CHR 0x27] @ ''str'' @ [CHR 0x27])"

definition sign_decision ::
  "audit_lib \<Rightarrow> string \<Rightarrow> decision \<Rightarrow> string \<Rightarrow> py_error + decision" where
  "sign_decision lib now_iso decision signer =
    (case decision ''audit_hash'' of
       None \<Rightarrow> Inl (ValueError (''Decision must include '' @ [CHR 0x27] @ ''audit_hash''
                                   @ [CHR 0x27] @ '' before signing.''))
     | Some (PStr audit_hash) \<Rightarrow>
         (let payload = audit_hash @ ''|'' @ signer;
              sig = hexdigest (lib_sha256 lib payload);
              signature = PDict [(''signed_by'', PStr signer),
                                 (''signature_hash'', PStr sig),
                                 (''signed_at'', PStr now_iso)];
              rec = decision
          in Inr (rec(''signature'' \<mapsto> signature)))
     | Some v \<Rightarrow> Inl (TypeError (add_str_error v)))"

definition verify_audit_hash :: "audit_lib \<Rightarrow> decision \<Rightarrow> bool" where
  "verify_audit_hash lib decision =
    (case decision ''audit_hash'' of
       None \<Rightarrow> False
     | Some stored \<Rightarrow>
         if \<not> py_truthy stored then False
         else (let recomputed = compute_audit_hash lib decision
               in stored = PStr recomputed))"

text \<open>
  A library instance for concrete runs: the serialisation of a dictionary is its ticker, the
  digest of a byte string its length.
\<close>

definition test_audit_lib :: audit_lib where
  "test_audit_lib =
     \<lparr> lib_dumps = (\<lambda>d. case d ''ticker'' of Some (PStr s) \<Rightarrow> s | _ \<Rightarrow> []),
       lib_sha256 = (\<lambda>s. of_nat (length s)) \<rparr>"

definition test_record :: decision where
  "test_record = [''ticker'' \<mapsto> PStr ''SSO'', ''ev_net'' \<mapsto> PFloat 0.059]"

section \<open>Properties of the viability gate\<close>

lemmas example_defs =
  compute_ev_def example_signal_def example_decay_def dict_get_def Let_def

text \<open>
  C2, as stated, fails: at the inputs of the worked example (with the confidence 0.8 of the
  repository's own test) the gross expected value is 0.07 and not 0.05, and the net
  expected value is 0.059, more than 0.02 away from 0.038.
\<close>

theorem C2_counterexample:
  "ev_gross (compute_ev (example_signal (Some 0.8)) example_decay 0.0005 0.0005 0.01) \<noteq> 0.05
   \<and> \<bar>ev_net (compute_ev (example_signal (Some 0.8)) example_decay 0.0005 0.0005 0.01) - 0.038\<bar>
       > 0.02"
  by (simp add: example_defs)

text \<open>
  C2, amended: for the signal with p\_success 0.8, favourable delta 0.10 and unfavourable
  delta -0.05, decay mean -0.01, trading costs 0.0005, slippage 0.0005 and safety margin
  0.01, the gate returns ev\_gross = 0.07, letf\_decay = 0.01, ev\_net = 0.059, and
  viability\_pass is true whenever the confidence is absent or at least 0.70.
\<close>

theorem C2_example_values:
  assumes "case conf of None \<Rightarrow> True | Some c \<Rightarrow> c \<ge> 0.7"
  shows "ev_gross (compute_ev (example_signal conf) example_decay 0.0005 0.0005 0.01) = 0.07
       \<and> letf_decay (compute_ev (example_signal conf) example_decay 0.0005 0.0005 0.01) = 0.01
       \<and> ev_net (compute_ev (example_signal conf) example_decay 0.0005 0.0005 0.01) = 0.059
       \<and> viability_pass (compute_ev (example_signal conf) example_decay 0.0005 0.0005 0.01)"
  using assms by (simp add: example_defs split: option.splits)

theorem C2_example_values_witness:
  "ev_gross (compute_ev (example_signal (Some 0.8)) example_decay 0.0005 0.0005 0.01) = 0.07
   \<and> letf_decay (compute_ev (example_signal (Some 0.8)) example_decay 0.0005 0.0005 0.01) = 0.01
   \<and> ev_net (compute_ev (example_signal (Some 0.8)) example_decay 0.0005 0.0005 0.01) = 0.059
   \<and> viability_pass (compute_ev (example_signal (Some 0.8)) example_decay 0.0005 0.0005 0.01)"
  using C2_example_values [of "Some 0.8"] by simp

text \<open>
  C3: for every signal, decay statistics, costs and safety margin, the net expected value
  the gate reports is the one of its inputs, p * fav + (1 - p) * unfav less the decay, the
  trading costs and the slippage, and the gate passes exactly when that value exceeds the
  safety margin and the confidence (1 when absent) is at least 0.70. In particular a
  confidence of 0.6 fails the gate whatever the net expected value; whenever the confidence
  is below 0.70, also when the net expected value is not above the margin, the note is the
  low-confidence one and not the one for an expected value below the margin.
\<close>

theorem C3_viability_gate:
  "(let p = (case p_success sig of None \<Rightarrow> 0 | Some v \<Rightarrow> v);
        e = (case expected_delta sig of None \<Rightarrow> Map.empty | Some d \<Rightarrow> d);
        fav = (case e ''fav'' of None \<Rightarrow> 0 | Some v \<Rightarrow> v);
        unfav = (case e ''unfav'' of None \<Rightarrow> 0 | Some v \<Rightarrow> v);
        decay = (case decay_stats of
                   None \<Rightarrow> 0
                 | Some d \<Rightarrow> max 0 (- (case d ''mean'' of None \<Rightarrow> 0 | Some v \<Rightarrow> v)));
        net = p * fav + (1 - p) * unfav - decay - trading_costs - slippage;
        conf = (case p_confidence sig of None \<Rightarrow> 1 | Some v \<Rightarrow> v);
        r = compute_ev sig decay_stats trading_costs slippage safety_margin
    in ev_net r = net
     \<and> (viability_pass r \<longleftrightarrow> (net > safety_margin \<and> conf \<ge> 0.7))
     \<and> (p_confidence sig = Some 0.6 \<longrightarrow>
           \<not> viability_pass r
           \<and> res_notes r = ''Low model confidence; human review recommended.'')
     \<and> (\<not> conf \<ge> 0.7 \<longrightarrow>
           res_notes r = ''Low model confidence; human review recommended.'')
     \<and> (\<not> net > safety_margin \<and> conf \<ge> 0.7 \<longrightarrow>
           res_notes r = ''Net EV below safety margin.'')
     \<and> (net > safety_margin \<and> conf \<ge> 0.7 \<longrightarrow> res_notes r = []))"
  by (simp add: compute_ev_def dict_get_def Let_def split: option.split)

text \<open>
  The gate at the worked example: open at confidence 0.8 (net expected value 0.059 above
  the margin 0.01), closed at confidence 0.6 with the same net expected value, closed with
  the low-confidence note when the margin is 0.5 and the confidence 0.6, and closed with
  the note for an expected value below the margin when the margin is 0.5 and the confidence
  0.8.
\<close>

theorem C3_viability_gate_witness:
  "ev_net (compute_ev (example_signal (Some 0.8)) example_decay 0.0005 0.0005 0.01) = 0.059
   \<and> viability_pass (compute_ev (example_signal (Some 0.8)) example_decay 0.0005 0.0005 0.01)
   \<and> res_notes (compute_ev (example_signal (Some 0.8)) example_decay 0.0005 0.0005 0.01) = []
   \<and> ev_net (compute_ev (example_signal (Some 0.6)) example_decay 0.0005 0.0005 0.01) = 0.059
   \<and> \<not> viability_pass (compute_ev (example_signal (Some 0.6)) example_decay 0.0005 0.0005 0.01)
   \<and> res_notes (compute_ev (example_signal (Some 0.6)) example_decay 0.0005 0.0005 0.01)
        = ''Low model confidence; human review recommended.''
   \<and> \<not> viability_pass (compute_ev (example_signal (Some 0.6)) example_decay 0.0005 0.0005 0.5)
   \<and> res_notes (compute_ev (example_signal (Some 0.6)) example_decay 0.0005 0.0005 0.5)
        = ''Low model confidence; human review recommended.''
   \<and> \<not> viability_pass (compute_ev (example_signal (Some 0.8)) example_decay 0.0005 0.0005 0.5)
   \<and> res_notes (compute_ev (example_signal (Some 0.8)) example_decay 0.0005 0.0005 0.5)
        = ''Net EV below safety margin.''"
  using C3_viability_gate [of "example_signal (Some 0.8)" example_decay "0.0005" "0.0005" "0.01"]
        C3_viability_gate [of "example_signal (Some 0.6)" example_decay "0.0005" "0.0005" "0.01"]
        C3_viability_gate [of "example_signal (Some 0.6)" example_decay "0.0005" "0.0005" "0.5"]
        C3_viability_gate [of "example_signal (Some 0.8)" example_decay "0.0005" "0.0005" "0.5"]
  by (simp add: example_defs)

section \<open>Properties of the execution simulator\<close>

subsection \<open>The TWAP loop\<close>


lemma slice_capacity_nonneg: "0 \<le> slice_capacity_from_adv a p m d pr"
  by (simp add: slice_capacity_from_adv_def Let_def)

lemma twap_loop_Cons:
  "twap_loop lib order mp adv pct sm qty slices bps (i # rest) remaining fills rng =
    (let intended = \<lceil>real_of_int qty / real_of_int slices\<rceil>;
         q = slice_fill_qty (slice_capacity_from_adv adv pct sm 390 mp) intended remaining;
         pg = mock_fill_price lib mp (case ord_side order of None \<Rightarrow> ''BUY'' | Some s \<Rightarrow> s) bps rng
     in if q \<le> 0
        then twap_loop lib order mp adv pct sm qty slices bps rest remaining
               (fills @ [SliceNotFilled (i + 1) intended]) rng
        else if remaining - q \<le> 0
        then (fills @ [SliceFill (i + 1) intended q (fst pg)], remaining - q, snd pg)
        else twap_loop lib order mp adv pct sm qty slices bps rest (remaining - q)
               (fills @ [SliceFill (i + 1) intended q (fst pg)]) (snd pg))"
  by (simp add: Let_def slice_fill_qty_def split_beta)

lemma slice_fill_qty_le: "slice_fill_qty cap intended remaining \<le> remaining"
  by (simp add: slice_fill_qty_def Let_def)



text \<open>The remaining quantity never grows and never becomes negative.\<close>

lemma twap_loop_remaining:
  "0 \<le> remaining \<Longrightarrow>
   twap_loop lib order mp adv pct sm qty slices bps idxs remaining fills rng = (fills', remaining', rng')
   \<Longrightarrow> 0 \<le> remaining' \<and> remaining' \<le> remaining"
proof (induction idxs arbitrary: remaining fills rng)
  case Nil
  then show ?case by simp
next
  case (Cons i rest)
  define intended where "intended = \<lceil>real_of_int qty / real_of_int slices\<rceil>"
  define q where
    "q = slice_fill_qty (slice_capacity_from_adv adv pct sm 390 mp) intended remaining"
  define pg where
    "pg = mock_fill_price lib mp (case ord_side order of None \<Rightarrow> ''BUY'' | Some s \<Rightarrow> s) bps rng"
  note step = Cons.prems(2) [unfolded twap_loop_Cons Let_def, folded intended_def,
      folded q_def, folded pg_def]
  have qle: "q \<le> remaining" unfolding q_def by (rule slice_fill_qty_le)
  show ?case
  proof (cases "q \<le> 0")
    case True
    with step have
      "twap_loop lib order mp adv pct sm qty slices bps rest remaining
         (fills @ [SliceNotFilled (i + 1) intended]) rng = (fills', remaining', rng')"
      by simp
    from Cons.IH [OF Cons.prems(1) this] show ?thesis .
  next
    case False
    show ?thesis
    proof (cases "remaining - q \<le> 0")
      case True
      with step False have "remaining' = remaining - q" by simp
      with qle False show ?thesis by linarith
    next
      case stay: False
      with step False have
        "twap_loop lib order mp adv pct sm qty slices bps rest (remaining - q)
           (fills @ [SliceFill (i + 1) intended q (fst pg)]) (snd pg) = (fills', remaining', rng')"
        by simp
      moreover have "0 \<le> remaining - q" using qle by linarith
      ultimately have "0 \<le> remaining' \<and> remaining' \<le> remaining - q"
        by (rule Cons.IH [rotated])
      with False show ?thesis by linarith
    qed
  qed
qed




subsection \<open>One TWAP order\<close>

lemma simulate_twap_fill_total:
  assumes "simulate_twap_fill lib order mp adv pct duration slices bps rng = (fills, tot, rng')"
  shows "0 \<le> tot \<and> tot \<le> max 0 (case ord_qty order of None \<Rightarrow> 0 | Some q \<Rightarrow> q)"
proof -
  define qty where "qty = (case ord_qty order of None \<Rightarrow> 0 | Some q \<Rightarrow> q)"
  show ?thesis unfolding qty_def [symmetric]
  proof (cases "qty \<le> 0 \<or> slices \<le> 0")
    case True
    with assms have "tot = 0"
      by (simp add: simulate_twap_fill_def Let_def qty_def [symmetric])
    then show "0 \<le> tot \<and> tot \<le> max 0 qty" by simp
  next
    case False
    obtain fs rem g where loop:
      "twap_loop lib order mp adv pct (real_of_int duration / real_of_int slices) qty slices bps
         (map int [0..<nat slices]) qty [] rng = (fs, rem, g)"
      by (metis prod_cases3)
    with assms False have "tot = qty - rem"
      by (simp add: simulate_twap_fill_def Let_def qty_def [symmetric])
    moreover have "0 \<le> rem \<and> rem \<le> qty"
      using False by (intro twap_loop_remaining [OF _ loop]) simp
    ultimately show "0 \<le> tot \<and> tot \<le> max 0 qty" by simp
  qed
qed





lemma upper_char_idem: "upper_char (upper_char c) = upper_char c"
  by (cases c) (simp add: upper_char_def Let_def)

lemma upper_idem: "upper (upper s) = upper s"
  by (simp add: upper_def upper_char_idem)

lemma upper_BUY: "upper ''BUY'' = ''BUY''"
  by (simp add: upper_def upper_char_def)

lemma mock_fill_price_value:
  "fst (mock_fill_price lib p side bps rng) =
     p * (1 + (if upper side = ''BUY'' then 1 else - 1)
              * (bps * (1 + (- 0.25 + (0.25 - (- 0.25))
                   * (case rng of None \<Rightarrow> lib_Random lib 0 | Some g \<Rightarrow> g) 0)) / 10000))"
  by (simp add: mock_fill_price_def rng_uniform_def Let_def)

subsection \<open>Limit orders\<close>

text \<open>
  C6: a limit order with a limit price and a positive quantity fills in full, at the
  slipped price computed from the limit, exactly when it is marketable (BUY: limit at or
  above the market price; SELL: limit at or below it); otherwise its status is no\_fill
  with zero quantity, no price and no fill; the filled quantity is never strictly between
  zero and the requested one; a limit order without a limit price or with a non-positive
  quantity gets the status invalid\_order, as a returned value.
\<close>

theorem C6_limit_order:
  "(let side = upper (case ord_side order of None \<Rightarrow> ''BUY'' | Some s \<Rightarrow> s);
        qty = (case ord_qty order of None \<Rightarrow> 0 | Some q \<Rightarrow> q);
        r = fst (execute_order_limit lib order market_price max_slippage_bps rng);
        u = (case rng of None \<Rightarrow> lib_Random lib 0 | Some g \<Rightarrow> g) 0;
        jitter = - 0.25 + 0.5 * u
    in res_requested r = qty
       \<and> (case ord_limit order of
             None \<Rightarrow> res_status r = ''invalid_order'' \<and> res_filled r = 0
                       \<and> res_avg_fill_price r = None \<and> res_fills r = []
           | Some limit \<Rightarrow>
               if qty \<le> 0
               then res_status r = ''invalid_order'' \<and> res_filled r = 0
                      \<and> res_avg_fill_price r = None \<and> res_fills r = []
               else (side = ''BUY'' \<longrightarrow> (res_filled r = qty \<longleftrightarrow> limit \<ge> market_price))
                  \<and> (side = ''SELL'' \<longrightarrow> (res_filled r = qty \<longleftrightarrow> limit \<le> market_price))
                  \<and> (res_filled r = qty \<longrightarrow>
                        res_status r = ''filled''
                        \<and> res_avg_fill_price r =
                            Some (limit * (1 + (if side = ''BUY'' then 1 else - 1)
                                                 * (max_slippage_bps * (1 + jitter) / 10000)))
                        \<and> res_fills r =
                            [ChildFill qty
                               (limit * (1 + (if side = ''BUY'' then 1 else - 1)
                                                * (max_slippage_bps * (1 + jitter) / 10000)))])
                  \<and> (res_filled r \<noteq> qty \<longrightarrow>
                        res_status r = ''no_fill'' \<and> res_filled r = 0
                        \<and> res_avg_fill_price r = None \<and> res_fills r = [])))"
  by (simp add: execute_order_limit_def Let_def split_beta mock_fill_price_value upper_idem
           upper_BUY split: option.split)

theorem C6_limit_order_witness:
  "res_filled (fst (execute_order_limit test_lib (limit_order ''BUY'' 50 (Some 101)) 100 5
                      (Some (\<lambda>i. 1 / 2)))) = 50
   \<and> res_avg_fill_price (fst (execute_order_limit test_lib (limit_order ''BUY'' 50 (Some 101)) 100 5
                      (Some (\<lambda>i. 1 / 2)))) = Some (101 * (1 + 5 / 10000))
   \<and> res_status (fst (execute_order_limit test_lib (limit_order ''BUY'' 50 (Some 99)) 100 5
                      (Some (\<lambda>i. 1 / 2)))) = ''no_fill''
   \<and> res_filled (fst (execute_order_limit test_lib (limit_order ''sell'' 50 (Some 99)) 100 5
                      (Some (\<lambda>i. 1 / 2)))) = 50
   \<and> res_status (fst (execute_order_limit test_lib (limit_order ''SELL'' 50 (Some 101)) 100 5
                      (Some (\<lambda>i. 1 / 2)))) = ''no_fill''
   \<and> res_status (fst (execute_order_limit test_lib (limit_order ''BUY'' 50 None) 100 5
                      (Some (\<lambda>i. 1 / 2)))) = ''invalid_order''
   \<and> res_status (fst (execute_order_limit test_lib (limit_order ''BUY'' 0 (Some 101)) 100 5
                      (Some (\<lambda>i. 1 / 2)))) = ''invalid_order''"
  using C6_limit_order [of "limit_order ''BUY'' 50 (Some 101)" test_lib 100 5 "Some (\<lambda>i. 1 / 2)"]
        C6_limit_order [of "limit_order ''BUY'' 50 (Some 99)" test_lib 100 5 "Some (\<lambda>i. 1 / 2)"]
        C6_limit_order [of "limit_order ''sell'' 50 (Some 99)" test_lib 100 5 "Some (\<lambda>i. 1 / 2)"]
        C6_limit_order [of "limit_order ''SELL'' 50 (Some 101)" test_lib 100 5 "Some (\<lambda>i. 1 / 2)"]
        C6_limit_order [of "limit_order ''BUY'' 50 None" test_lib 100 5 "Some (\<lambda>i. 1 / 2)"]
        C6_limit_order [of "limit_order ''BUY'' 0 (Some 101)" test_lib 100 5 "Some (\<lambda>i. 1 / 2)"]
  by (simp add: Let_def limit_order_def upper_def upper_char_def)

subsection \<open>A whole plan\<close>

lemma execute_order_market_filled:
  "res_filled (fst (execute_order_market lib order mp bps rng)) = max 0 (order_qty order)"
  by (simp add: execute_order_market_def order_qty_def Let_def split_beta)

lemma execute_order_limit_filled:
  "0 \<le> res_filled (fst (execute_order_limit lib order mp bps rng))
   \<and> res_filled (fst (execute_order_limit lib order mp bps rng)) \<le> max 0 (order_qty order)"
  by (simp add: execute_order_limit_def order_qty_def Let_def split_beta split: option.split)

lemma execute_one_bounds:
  assumes "execute_one lib sor bps snap order rng = (r, g)"
  shows "or_requested_qty r = order_qty order
         \<and> 0 \<le> or_filled_qty r \<and> or_filled_qty r \<le> max 0 (order_qty order)"
proof (cases "upper (case ord_type order of None \<Rightarrow> ''MARKET'' | Some t \<Rightarrow> t) = ''ALG''
           \<or> upper (case ord_algo order of None \<Rightarrow> [] | Some a \<Rightarrow> a) = ''TWAP''")
  case True
  define mp where "mp =
    (case (case snap of
              None \<Rightarrow> Map.empty
            | Some s \<Rightarrow>
                (case ord_ticker order of
                   None \<Rightarrow> Map.empty
                 | Some t \<Rightarrow> (case s t of None \<Rightarrow> Map.empty | Some info \<Rightarrow> info))) ''price'' of
       Some v \<Rightarrow> v
     | None \<Rightarrow> (case ord_limit order of Some l \<Rightarrow> l | None \<Rightarrow> 100))"
  define adv where "adv =
    (case (case snap of
              None \<Rightarrow> Map.empty
            | Some s \<Rightarrow>
                (case ord_ticker order of
                   None \<Rightarrow> Map.empty
                 | Some t \<Rightarrow> (case s t of None \<Rightarrow> Map.empty | Some info \<Rightarrow> info))) ''adv'' of
       Some v \<Rightarrow> v
     | None \<Rightarrow> 0)"
  obtain fills tot g' where run:
    "simulate_twap_fill lib order mp adv
       (case ord_percent_of_adv order of None \<Rightarrow> sor_percent sor | Some p \<Rightarrow> p)
       (case ord_duration_minutes order of None \<Rightarrow> 30 | Some d \<Rightarrow> d)
       (case ord_slices order of None \<Rightarrow> 6 | Some s \<Rightarrow> s) bps rng = (fills, tot, g')"
    by (metis prod_cases3)
  from assms True run have "or_requested_qty r = order_qty order" "or_filled_qty r = tot"
    by (auto simp add: execute_one_def Let_def order_qty_def mp_def adv_def)
  with simulate_twap_fill_total [OF run] show ?thesis
    by (simp add: order_qty_def)
next
  case False
  with assms have "or_requested_qty r = order_qty order"
    and "or_filled_qty r = res_filled (fst (execute_order_market lib order
            (case (case snap of
                      None \<Rightarrow> Map.empty
                    | Some s \<Rightarrow>
                        (case ord_ticker order of
                           None \<Rightarrow> Map.empty
                         | Some t \<Rightarrow> (case s t of None \<Rightarrow> Map.empty | Some info \<Rightarrow> info)))
                    ''price'' of
               Some v \<Rightarrow> v
             | None \<Rightarrow> (case ord_limit order of Some l \<Rightarrow> l | None \<Rightarrow> 100)) bps rng))
        \<or> or_filled_qty r = res_filled (fst (execute_order_limit lib order
            (case (case snap of
                      None \<Rightarrow> Map.empty
                    | Some s \<Rightarrow>
                        (case ord_ticker order of
                           None \<Rightarrow> Map.empty
                         | Some t \<Rightarrow> (case s t of None \<Rightarrow> Map.empty | Some info \<Rightarrow> info)))
                    ''price'' of
               Some v \<Rightarrow> v
             | None \<Rightarrow> (case ord_limit order of Some l \<Rightarrow> l | None \<Rightarrow> 100)) bps rng))"
    by (auto simp add: execute_one_def Let_def order_qty_def split_beta split: if_splits)
  then show ?thesis
    using execute_order_market_filled execute_order_limit_filled
    by (metis max.cobounded1 order_refl)
qed

lemma execute_orders_acc:
  assumes "list_all (\<lambda>x. 0 \<le> order_qty x) orders"
    and "execute_orders lib sor bps snap orders fills_out m rng = (fs, m')"
  shows "\<exists>new. fs = fills_out @ new \<and> list_all not_overfilled new
           \<and> map or_requested_qty new = map order_qty orders
           \<and> total_filled m' = total_filled m + sum_list (map or_filled_qty new)
           \<and> total_requested m' = total_requested m + sum_list (map or_requested_qty new)"
  using assms
proof (induction orders arbitrary: fills_out m rng)
  case Nil
  then show ?case by simp
next
  case (Cons order orders)
  obtain r g where one: "execute_one lib sor bps snap order rng = (r, g)"
    by (cases "execute_one lib sor bps snap order rng")
  define m3 where "m3 =
    (case or_avg_fill_price r of
       None \<Rightarrow> m\<lparr> total_requested := total_requested m + or_requested_qty r,
                   total_filled := total_filled m + or_filled_qty r \<rparr>
     | Some avg \<Rightarrow>
         m\<lparr> total_requested := total_requested m + or_requested_qty r,
             total_filled := total_filled m + or_filled_qty r,
             notional_filled_usd := notional_filled_usd m + real_of_int (or_filled_qty r) * avg \<rparr>)"
  have m3: "total_filled m3 = total_filled m + or_filled_qty r"
    "total_requested m3 = total_requested m + or_requested_qty r"
    by (simp_all add: m3_def split: option.split)
  from Cons.prems(2) one have rest:
    "execute_orders lib sor bps snap orders (fills_out @ [r]) m3 g = (fs, m')"
    by (simp add: Let_def m3_def split: option.splits)
  from Cons.prems(1) have q: "0 \<le> order_qty order" and qs: "list_all (\<lambda>x. 0 \<le> order_qty x) orders"
    by simp_all
  from execute_one_bounds [OF one] q have r: "not_overfilled r" "or_requested_qty r = order_qty order"
    by (simp_all add: not_overfilled_def)
  from Cons.IH [OF qs rest] obtain new where new:
    "fs = (fills_out @ [r]) @ new" "list_all not_overfilled new"
    "map or_requested_qty new = map order_qty orders"
    "total_filled m' = total_filled m3 + sum_list (map or_filled_qty new)"
    "total_requested m' = total_requested m3 + sum_list (map or_requested_qty new)"
    by blast
  show ?case
  proof (intro exI conjI)
    show "fs = fills_out @ (r # new)" using new(1) by simp
    show "list_all not_overfilled (r # new)" using r(1) new(2) by simp
    show "map or_requested_qty (r # new) = map order_qty (order # orders)"
      using r(2) new(3) by simp
    show "total_filled m' = total_filled m + sum_list (map or_filled_qty (r # new))"
      using new(4) m3(1) by simp
    show "total_requested m' = total_requested m + sum_list (map or_requested_qty (r # new))"
      using new(5) m3(2) by simp
  qed
qed

lemma sum_list_not_overfilled:
  "list_all not_overfilled rs \<Longrightarrow>
     sum_list (map or_filled_qty rs) \<le> sum_list (map or_requested_qty rs)"
  by (induction rs) (auto simp add: not_overfilled_def)

text \<open>
  C10: a sandbox execution of a plan whose orders all have a quantity of at least zero
  returns a report in which every order has 0 <= filled\_qty <= requested\_qty, the metric
  total\_filled is the sum of the filled quantities of the orders, and total\_filled is at
  most total\_requested.
\<close>

theorem C10_no_overfill:
  assumes "list_all (\<lambda>x. 0 \<le> order_qty x)
             (case plan_orders execution_plan of None \<Rightarrow> [] | Some os \<Rightarrow> os)"
  shows "\<exists>rep. execute_order lib execution_plan ''sandbox'' market_snapshot seed = Inr rep
           \<and> list_all (\<lambda>r. 0 \<le> or_filled_qty r \<and> or_filled_qty r \<le> or_requested_qty r)
                (rep_fills rep)
           \<and> map or_requested_qty (rep_fills rep)
               = map order_qty (case plan_orders execution_plan of None \<Rightarrow> [] | Some os \<Rightarrow> os)
           \<and> total_filled (rep_metrics rep) = sum_list (map or_filled_qty (rep_fills rep))
           \<and> total_requested (rep_metrics rep) = sum_list (map or_requested_qty (rep_fills rep))
           \<and> total_filled (rep_metrics rep) \<le> total_requested (rep_metrics rep)"
proof -
  define orders where "orders = (case plan_orders execution_plan of None \<Rightarrow> [] | Some os \<Rightarrow> os)"
  define sor where "sor = parse_sor_policy lib (plan_sor_policy execution_plan)"
  define bps where "bps = (case plan_max_slippage_bps execution_plan of None \<Rightarrow> 5 | Some b \<Rightarrow> b)"
  define g where "g = lib_Random lib (case seed of None \<Rightarrow> 0 | Some s \<Rightarrow> s)"
  obtain fs m' where run:
    "execute_orders lib sor bps market_snapshot orders []
       \<lparr> total_requested = 0, total_filled = 0, notional_filled_usd = 0 \<rparr> (Some g) = (fs, m')"
    by (metis surj_pair)
  from execute_orders_acc [OF assms [folded orders_def] run]
  have fs: "list_all not_overfilled fs" "map or_requested_qty fs = map order_qty orders"
    "total_filled m' = sum_list (map or_filled_qty fs)"
    "total_requested m' = sum_list (map or_requested_qty fs)"
    by auto
  have "execute_order lib execution_plan ''sandbox'' market_snapshot seed
          = Inr \<lparr> rep_status = ''ok'', rep_fills = fs, rep_metrics = m' \<rparr>"
    using run by (simp add: execute_order_def Let_def orders_def sor_def bps_def g_def)
  moreover have "list_all (\<lambda>r. 0 \<le> or_filled_qty r \<and> or_filled_qty r \<le> or_requested_qty r) fs"
    using fs(1) by (simp add: list_all_iff not_overfilled_def)
  moreover have "total_filled m' \<le> total_requested m'"
    using sum_list_not_overfilled [OF fs(1)] fs(3,4) by simp
  ultimately show ?thesis
    using fs(2,3,4) by (simp add: orders_def)
qed

theorem C10_no_overfill_witness:
  "list_all (\<lambda>x. 0 \<le> order_qty x)
     (case plan_orders test_plan of None \<Rightarrow> [] | Some os \<Rightarrow> os)
   \<and> (\<exists>rep. execute_order test_lib test_plan ''sandbox'' test_snapshot (Some 5) = Inr rep
         \<and> list_all (\<lambda>r. 0 \<le> or_filled_qty r \<and> or_filled_qty r \<le> or_requested_qty r)
              (rep_fills rep)
         \<and> map or_requested_qty (rep_fills rep) = [10, 200]
         \<and> total_filled (rep_metrics rep) = sum_list (map or_filled_qty (rep_fills rep))
         \<and> total_requested (rep_metrics rep) = 210
         \<and> total_filled (rep_metrics rep) \<le> 210)"
proof -
  have q: "list_all (\<lambda>x. 0 \<le> order_qty x)
             (case plan_orders test_plan of None \<Rightarrow> [] | Some os \<Rightarrow> os)"
    by (simp add: test_plan_def order_qty_def market_order_def twap_order_def)
  have qs: "map order_qty (case plan_orders test_plan of None \<Rightarrow> [] | Some os \<Rightarrow> os) = [10, 200]"
    by (simp add: test_plan_def order_qty_def market_order_def twap_order_def)
  from C10_no_overfill [OF q, of test_lib test_snapshot "Some 5"]
  obtain rep where rep:
    "execute_order test_lib test_plan ''sandbox'' test_snapshot (Some 5) = Inr rep
     \<and> list_all (\<lambda>r. 0 \<le> or_filled_qty r \<and> or_filled_qty r \<le> or_requested_qty r)
          (rep_fills rep)
     \<and> map or_requested_qty (rep_fills rep)
         = map order_qty (case plan_orders test_plan of None \<Rightarrow> [] | Some os \<Rightarrow> os)
     \<and> total_filled (rep_metrics rep) = sum_list (map or_filled_qty (rep_fills rep))
     \<and> total_requested (rep_metrics rep) = sum_list (map or_requested_qty (rep_fills rep))
     \<and> total_filled (rep_metrics rep) \<le> total_requested (rep_metrics rep)" ..
  from rep have r3: "map or_requested_qty (rep_fills rep) = [10, 200]"
    unfolding qs by (elim conjE)
  from rep have r5: "total_requested (rep_metrics rep) = sum_list (map or_requested_qty (rep_fills rep))"
    by (elim conjE)
  have tr: "total_requested (rep_metrics rep) = 210" unfolding r5 r3 by simp
  from rep have r6: "total_filled (rep_metrics rep) \<le> 210" unfolding tr [symmetric] by (elim conjE)
  from rep have r1: "execute_order test_lib test_plan ''sandbox'' test_snapshot (Some 5) = Inr rep"
    by (elim conjE)
  from rep have r2: "list_all (\<lambda>r. 0 \<le> or_filled_qty r \<and> or_filled_qty r \<le> or_requested_qty r)
          (rep_fills rep)" by (elim conjE)
  from rep have r4: "total_filled (rep_metrics rep) = sum_list (map or_filled_qty (rep_fills rep))"
    by (elim conjE)
  show ?thesis
    by (rule conjI [OF q], rule exI [of _ rep], intro conjI) (rule r1 r2 r3 r4 tr r6)+
qed

section \<open>Properties of the simulator\<close>

subsection \<open>Percentiles of a non-empty list\<close>

lemma sorted_nth_le:
  "sorted s \<Longrightarrow> i \<le> j \<Longrightarrow> j < length s \<Longrightarrow> s ! i \<le> (s ! j :: real)"
  by (simp add: sorted_nth_mono)

lemma percentile_index:
  assumes "0 \<le> q" "q \<le> 100" "0 < n"
  shows "nat \<lfloor>real (n - 1) * q / 100\<rfloor> \<le> n - 1"
proof -
  have "real (n - 1) * q \<le> real (n - 1) * 100"
    using assms(2) by (intro mult_left_mono) simp_all
  then have "real (n - 1) * q / 100 \<le> real (n - 1)"
    by simp
  then have "\<lfloor>real (n - 1) * q / 100\<rfloor> \<le> \<lfloor>real (n - 1)\<rfloor>"
    by (rule floor_mono)
  then have "\<lfloor>real (n - 1) * q / 100\<rfloor> \<le> int (n - 1)"
    by simp
  then show ?thesis by linarith
qed

text \<open>A percentile lies between the two entries it interpolates.\<close>

lemma np_percentile_between:
  assumes "xs \<noteq> []" "0 \<le> q" "q \<le> 100"
  defines "s \<equiv> sort xs"
  defines "lo \<equiv> nat \<lfloor>real (length xs - 1) * q / 100\<rfloor>"
  shows "s ! lo \<le> np_percentile xs q"
    and "np_percentile xs q \<le> s ! min (lo + 1) (length xs - 1)"
proof -
  define n where "n = length xs"
  define h where "h = real (n - 1) * q / 100"
  define hi where "hi = min (lo + 1) (n - 1)"
  define g where "g = h - real lo"
  have n: "0 < n" "length s = n" using assms(1) by (simp_all add: n_def s_def)
  have lo: "lo = nat \<lfloor>h\<rfloor>" by (simp add: lo_def h_def n_def)
  have h0: "0 \<le> h" using assms(2) by (simp add: h_def)
  have lo_le: "lo \<le> n - 1"
    unfolding lo h_def using assms(2,3) n(1) by (rule percentile_index)
  have g: "0 \<le> g" "g \<le> 1"
    using h0 unfolding g_def lo by linarith+
  have "lo \<le> hi" "hi < n" using lo_le n(1) by (simp_all add: hi_def)
  with n(2) have d: "s ! lo \<le> s ! hi"
    by (intro sorted_nth_le) (simp_all add: s_def)
  have P: "np_percentile xs q = s ! lo + (s ! hi - s ! lo) * g"
    by (simp add: np_percentile_def Let_def s_def lo_def hi_def g_def h_def n_def)
  show "s ! lo \<le> np_percentile xs q"
    unfolding P using d g(1) by simp
  have "(s ! hi - s ! lo) * g \<le> (s ! hi - s ! lo) * 1"
    using d g(2) by (intro mult_left_mono) simp_all
  then show "np_percentile xs q \<le> s ! min (lo + 1) (length xs - 1)"
    unfolding P hi_def n_def by simp
qed

text \<open>Percentiles grow with the rank.\<close>

lemma np_percentile_mono:
  assumes "xs \<noteq> []" "0 \<le> q1" "q1 \<le> q2" "q2 \<le> 100"
  shows "np_percentile xs q1 \<le> np_percentile xs q2"
proof -
  define s where "s = sort xs"
  define n where "n = length xs"
  define h1 where "h1 = real (n - 1) * q1 / 100"
  define h2 where "h2 = real (n - 1) * q2 / 100"
  define l1 where "l1 = nat \<lfloor>h1\<rfloor>"
  define l2 where "l2 = nat \<lfloor>h2\<rfloor>"
  have n: "0 < n" "length s = n" "sorted s" using assms(1) by (simp_all add: n_def s_def)
  have h: "0 \<le> h1" "h1 \<le> h2"
    using assms(2,3) by (simp_all add: h1_def h2_def divide_right_mono mult_left_mono)
  then have l: "l1 \<le> l2" unfolding l1_def l2_def by (simp add: floor_mono nat_mono)
  have l2_le: "l2 \<le> n - 1"
    unfolding l2_def h2_def using assms n(1) by (intro percentile_index) simp_all
  have P1: "np_percentile xs q1 = s ! l1 + (s ! min (l1 + 1) (n - 1) - s ! l1) * (h1 - real l1)"
    by (simp add: np_percentile_def Let_def s_def l1_def h1_def n_def)
  have P2: "np_percentile xs q2 = s ! l2 + (s ! min (l2 + 1) (n - 1) - s ! l2) * (h2 - real l2)"
    by (simp add: np_percentile_def Let_def s_def l2_def h2_def n_def)
  show ?thesis
  proof (cases "l1 = l2")
    case True
    have "s ! l2 \<le> s ! min (l2 + 1) (n - 1)"
      using n l2_le by (intro sorted_nth_le) simp_all
    then have "(s ! min (l2 + 1) (n - 1) - s ! l2) * (h1 - real l2)
                 \<le> (s ! min (l2 + 1) (n - 1) - s ! l2) * (h2 - real l2)"
      using h(2) by (intro mult_left_mono) simp_all
    then show ?thesis unfolding P1 P2 True by simp
  next
    case False
    with l have lt: "l1 + 1 \<le> l2" by simp
    have "np_percentile xs q1 \<le> s ! min (l1 + 1) (n - 1)"
      using np_percentile_between(2) [OF assms(1,2)] assms(3,4)
      by (simp add: s_def l1_def h1_def n_def)
    also have "\<dots> \<le> s ! l2"
      using n lt l2_le by (intro sorted_nth_le) simp_all
    also have "\<dots> \<le> np_percentile xs q2"
      using np_percentile_between(1) [OF assms(1), of q2] assms(2,3,4)
      by (simp add: s_def l2_def h2_def n_def)
    finally show ?thesis .
  qed
qed

lemma np_min_le_percentile:
  assumes "xs \<noteq> []" "0 \<le> q" "q \<le> 100"
  shows "np_min xs \<le> np_percentile xs q"
proof -
  have len: "0 < length xs" using assms(1) by simp
  from percentile_index [OF assms(2,3) len] len
  have "nat \<lfloor>real (length xs - 1) * q / 100\<rfloor> < length xs" by linarith
  then have "nat \<lfloor>real (length xs - 1) * q / 100\<rfloor> < length (sort xs)"
    by (simp only: length_sort)
  then have "sort xs ! nat \<lfloor>real (length xs - 1) * q / 100\<rfloor> \<in> set (sort xs)"
    by (rule nth_mem)
  then have "sort xs ! nat \<lfloor>real (length xs - 1) * q / 100\<rfloor> \<in> set xs" by simp
  then have "Min (set xs) \<le> sort xs ! nat \<lfloor>real (length xs - 1) * q / 100\<rfloor>"
    by (intro Min_le) simp_all
  then have "np_min xs \<le> sort xs ! nat \<lfloor>real (length xs - 1) * q / 100\<rfloor>"
    unfolding np_min_def .
  also have "\<dots> \<le> np_percentile xs q"
    by (rule np_percentile_between(1) [OF assms])
  finally show ?thesis .
qed

lemma np_percentile_le_max:
  assumes "xs \<noteq> []" "0 \<le> q" "q \<le> 100"
  shows "np_percentile xs q \<le> np_max xs"
proof -
  define k where "k = min (nat \<lfloor>real (length xs - 1) * q / 100\<rfloor> + 1) (length xs - 1)"
  have len: "0 < length xs" using assms(1) by simp
  have "k \<le> length xs - 1" unfolding k_def by (rule min.cobounded2)
  with len have "k < length xs" by linarith
  then have "k < length (sort xs)" by (simp only: length_sort)
  then have "sort xs ! k \<in> set (sort xs)" by (rule nth_mem)
  then have "sort xs ! k \<in> set xs" by simp
  then have "sort xs ! k \<le> Max (set xs)" by (intro Max_ge) simp_all
  then have "sort xs ! k \<le> np_max xs" unfolding np_max_def .
  with np_percentile_between(2) [OF assms, folded k_def] show ?thesis by linarith
qed

text \<open>The median is the 50th percentile.\<close>

lemma np_percentile_at:
  assumes "\<lfloor>real (length xs - 1) * q / 100\<rfloor> = int lo"
  shows "np_percentile xs q =
           sort xs ! lo + (sort xs ! min (lo + 1) (length xs - 1) - sort xs ! lo)
                            * (real (length xs - 1) * q / 100 - real lo)"
proof -
  have "nat \<lfloor>real (length xs - 1) * q / 100\<rfloor> = lo" unfolding assms by simp
  then show ?thesis unfolding np_percentile_def Let_def length_sort by simp
qed

lemma np_median_percentile:
  assumes "xs \<noteq> []"
  shows "np_median xs = np_percentile xs 50"
proof (cases "even (length xs)")
  case True
  then obtain m where m: "length xs = 2 * m" by (elim evenE)
  with assms have m0: "0 < m" by (cases m) auto
  define X where "X = real (length xs - 1) * 50 / 100"
  have rl: "real (length xs - 1) = 2 * real m - 1"
    unfolding m using m0 by simp
  have rm: "real (m - 1) = real m - 1" using m0 by simp
  have X: "X = real (m - 1) + 1 / 2" unfolding X_def rl rm by simp
  have "real_of_int (int (m - 1)) \<le> X \<and> X < real_of_int (int (m - 1)) + 1"
    unfolding X by simp
  then have fl: "\<lfloor>X\<rfloor> = int (m - 1)" by (simp only: floor_eq_iff)
  have hi: "min (m - 1 + 1) (length xs - 1) = m" unfolding m using m0 by simp
  have "np_percentile xs 50 =
          sort xs ! (m - 1) + (sort xs ! min (m - 1 + 1) (length xs - 1) - sort xs ! (m - 1))
                                 * (X - real (m - 1))"
    unfolding X_def by (rule np_percentile_at) (rule fl [unfolded X_def])
  also have "\<dots> = sort xs ! (m - 1) + (sort xs ! m - sort xs ! (m - 1)) * (1 / 2)"
    unfolding hi X by simp
  also have "\<dots> = (sort xs ! (m - 1) + sort xs ! m) / 2"
    by (simp add: field_simps)
  also have "\<dots> = np_median xs"
    unfolding np_median_def Let_def length_sort m by simp
  finally show ?thesis by simp
next
  case False
  then obtain m where m: "length xs = 2 * m + 1" by (elim oddE)
  define X where "X = real (length xs - 1) * 50 / 100"
  have X: "X = real m" unfolding X_def m by simp
  have fl: "\<lfloor>X\<rfloor> = int m" unfolding X by simp
  have "np_percentile xs 50 =
          sort xs ! m + (sort xs ! min (m + 1) (length xs - 1) - sort xs ! m) * (X - real m)"
    unfolding X_def by (rule np_percentile_at) (rule fl [unfolded X_def])
  also have "\<dots> = sort xs ! m" unfolding X by simp
  also have "\<dots> = np_median xs"
    unfolding np_median_def Let_def length_sort m by simp
  finally show ?thesis by simp
qed

subsection \<open>Errors and results of the simulator\<close>

lemma simulate_lef_decay_returns:
  assumes "1 \<le> window" and "window \<le> int (length underlying_returns)"
    and "1 \<le> trials" and "0 \<le> seed"
  shows "\<exists>stats. simulate_lef_decay rng_integers underlying_returns leverage window trials seed
                    return_results = Inr stats
                \<and> stats_trials stats = trials \<and> stats_window stats = window
                \<and> stats_leverage stats = leverage"
proof -
  have "[0..<nat trials] \<noteq> []" using assms(3) by simp
  then show ?thesis using assms by (simp add: simulate_lef_decay_def Let_def)
qed

lemma simulate_lef_decay_results:
  assumes "simulate_lef_decay rng_integers underlying_returns leverage window trials seed
             return_results = Inr stats"
  defines "results \<equiv>
             map (path_return underlying_returns leverage window)
               (map (rng_integers seed 0 (nat (int (length underlying_returns) - window + 1))
                      (nat trials))
                  [0..<nat trials])"
  shows "results \<noteq> []"
    and "median stats = np_median results"
    and "p10 stats = np_percentile results 10" and "p25 stats = np_percentile results 25"
    and "p75 stats = np_percentile results 75" and "p90 stats = np_percentile results 90"
    and "worst stats = np_min results" and "best stats = np_max results"
  using assms(1) unfolding results_def simulate_lef_decay_def Let_def
  by (auto split: if_splits)

text \<open>
  C7, as stated, fails: with three returns and a window of 2 (sufficient history) the
  simulator raises when the number of trials is 0 (\<^verbatim>\<open>np.min\<close> of an empty array) and when
  the seed is negative (\<^verbatim>\<open>default_rng\<close> rejects it).
\<close>

theorem C7_counterexample:
  "simulate_lef_decay cyclic_integers [0.01, - 0.02, 0.03] 3 2 0 42 False
     = Inl (ValueError ''zero-size array to reduction operation minimum which has no identity'')
   \<and> simulate_lef_decay cyclic_integers [0.01, - 0.02, 0.03] 3 2 100 (- 1) False
     = Inl (ValueError ''expected non-negative integer'')"
  by (simp add: simulate_lef_decay_def)

text \<open>
  C7, amended: the simulator fails with the window error whenever window < 1, and with the
  history error whenever window >= 1 and the returns are fewer than window; for
  window >= 1, sufficient history, at least one trial and a non-negative seed it does not
  raise and returns statistics that carry the trials, window and leverage it was given.
\<close>

theorem C7_simulator_errors:
  "(window < 1 \<longrightarrow>
      simulate_lef_decay rng_integers underlying_returns leverage window trials seed
        return_results = Inl (ValueError ''window must be >= 1''))
   \<and> (1 \<le> window \<and> int (length underlying_returns) < window \<longrightarrow>
      simulate_lef_decay rng_integers underlying_returns leverage window trials seed
        return_results
      = Inl (ValueError ''underlying_returns length must be at least window''))
   \<and> (1 \<le> window \<and> window \<le> int (length underlying_returns) \<and> 1 \<le> trials \<and> 0 \<le> seed \<longrightarrow>
      (\<exists>stats. simulate_lef_decay rng_integers underlying_returns leverage window trials seed
                 return_results = Inr stats
              \<and> stats_trials stats = trials \<and> stats_window stats = window
              \<and> stats_leverage stats = leverage))"
proof (intro conjI impI)
  assume "window < 1"
  then show "simulate_lef_decay rng_integers underlying_returns leverage window trials seed
        return_results = Inl (ValueError ''window must be >= 1'')"
    by (simp add: simulate_lef_decay_def)
next
  assume "1 \<le> window \<and> int (length underlying_returns) < window"
  then show "simulate_lef_decay rng_integers underlying_returns leverage window trials seed
        return_results
      = Inl (ValueError ''underlying_returns length must be at least window'')"
    by (simp add: simulate_lef_decay_def)
next
  assume "1 \<le> window \<and> window \<le> int (length underlying_returns) \<and> 1 \<le> trials \<and> 0 \<le> seed"
  then show "\<exists>stats. simulate_lef_decay rng_integers underlying_returns leverage window trials
                 seed return_results = Inr stats
              \<and> stats_trials stats = trials \<and> stats_window stats = window
              \<and> stats_leverage stats = leverage"
    by (intro simulate_lef_decay_returns) simp_all
qed

text \<open>
  Ten returns with a window of 20, a window of 0, and a run of 4 trials over a window of 2
  on three returns.
\<close>

theorem C7_simulator_errors_witness:
  "simulate_lef_decay cyclic_integers ten_returns 2 20 100 42 False
     = Inl (ValueError ''underlying_returns length must be at least window'')
   \<and> simulate_lef_decay cyclic_integers ten_returns 2 0 100 42 False
     = Inl (ValueError ''window must be >= 1'')
   \<and> (\<exists>stats. simulate_lef_decay cyclic_integers [0.01, - 0.02, 0.03] 3 2 4 42 False = Inr stats
          \<and> stats_trials stats = 4 \<and> stats_window stats = 2 \<and> stats_leverage stats = 3)"
  using C7_simulator_errors [of 20 cyclic_integers ten_returns 2 100 42 False]
        C7_simulator_errors [of 0 cyclic_integers ten_returns 2 100 42 False]
        C7_simulator_errors [of 2 cyclic_integers "[0.01, - 0.02, 0.03]" 3 4 42 False]
  by (simp add: ten_returns_def)

text \<open>
  C8: every statistics record the simulator returns satisfies
  worst <= p10 <= p25 <= median <= p75 <= p90 <= best.
\<close>

theorem C8_percentile_order:
  assumes "simulate_lef_decay rng_integers underlying_returns leverage window trials seed
             return_results = Inr stats"
  shows "worst stats \<le> p10 stats \<and> p10 stats \<le> p25 stats \<and> p25 stats \<le> median stats
       \<and> median stats \<le> p75 stats \<and> p75 stats \<le> p90 stats \<and> p90 stats \<le> best stats"
proof -
  define results where
    "results = map (path_return underlying_returns leverage window)
                 (map (rng_integers seed 0 (nat (int (length underlying_returns) - window + 1))
                        (nat trials))
                    [0..<nat trials])"
  note r = simulate_lef_decay_results(1) [OF assms, folded results_def]
  note s = simulate_lef_decay_results(2-8) [OF assms, folded results_def]
  have "np_min results \<le> np_percentile results 10"
    by (rule np_min_le_percentile [OF r]) simp_all
  moreover have "np_percentile results 10 \<le> np_percentile results 25"
    by (rule np_percentile_mono [OF r]) simp_all
  moreover have "np_percentile results 25 \<le> np_percentile results 50"
    by (rule np_percentile_mono [OF r]) simp_all
  moreover have "np_percentile results 50 \<le> np_percentile results 75"
    by (rule np_percentile_mono [OF r]) simp_all
  moreover have "np_percentile results 75 \<le> np_percentile results 90"
    by (rule np_percentile_mono [OF r]) simp_all
  moreover have "np_percentile results 90 \<le> np_max results"
    by (rule np_percentile_le_max [OF r]) simp_all
  ultimately show ?thesis
    unfolding s np_median_percentile [OF r] by simp
qed

theorem C8_percentile_order_witness:
  "\<exists>stats. simulate_lef_decay cyclic_integers [0.01, - 0.02, 0.03] 3 2 4 42 False = Inr stats
      \<and> worst stats \<le> p10 stats \<and> p10 stats \<le> p25 stats \<and> p25 stats \<le> median stats
      \<and> median stats \<le> p75 stats \<and> p75 stats \<le> p90 stats \<and> p90 stats \<le> best stats"
proof -
  have "\<exists>stats. simulate_lef_decay cyclic_integers [0.01, - 0.02, 0.03] 3 2 4 42 False = Inr stats
                \<and> stats_trials stats = 4 \<and> stats_window stats = 2 \<and> stats_leverage stats = 3"
    by (rule simulate_lef_decay_returns) simp_all
  then obtain stats where
    run: "simulate_lef_decay cyclic_integers [0.01, - 0.02, 0.03] 3 2 4 42 False = Inr stats"
    by (elim exE conjE)
  from C8_percentile_order [OF run] run show ?thesis
    by (intro exI [of _ stats] conjI) simp_all
qed



section \<open>Properties of the audit hash\<close>

lemma length_hexdigest: "length (hexdigest w) = 64"
  by (simp add: hexdigest_def)

lemma hexdigest_truthy: "py_truthy (PStr (hexdigest w))"
proof -
  have "hexdigest w \<noteq> []" using length_hexdigest [of w] by auto
  then show ?thesis by simp
qed


text \<open>The hash does not read the fields \<^verbatim>\<open>audit_hash\<close> and \<^verbatim>\<open>signature\<close>.\<close>

lemma strip_audit_hash:
  "(d(''audit_hash'' := x))(''audit_hash'' := None, ''signature'' := None)
     = d(''audit_hash'' := None, ''signature'' := None)"
  by (auto simp add: fun_eq_iff)

lemma strip_signature:
  "(d(''signature'' := x))(''audit_hash'' := None, ''signature'' := None)
     = d(''audit_hash'' := None, ''signature'' := None)"
  by (auto simp add: fun_eq_iff)

lemma compute_audit_hash_strip:
  "compute_audit_hash lib d
     = hexdigest (lib_sha256 lib (lib_dumps lib (d(''audit_hash'' := None, ''signature'' := None))))"
  by (simp add: compute_audit_hash_def canonical_json_bytes_def Let_def)

lemma compute_audit_hash_audit_hash:
  "compute_audit_hash lib (d(''audit_hash'' := x)) = compute_audit_hash lib d"
  unfolding compute_audit_hash_strip strip_audit_hash ..

lemma compute_audit_hash_signature:
  "compute_audit_hash lib (d(''signature'' := x)) = compute_audit_hash lib d"
  unfolding compute_audit_hash_strip strip_signature ..

text \<open>A record that stores its own hash verifies, with or without a signature.\<close>

lemma verify_stored:
  "verify_audit_hash lib (r(''audit_hash'' \<mapsto> PStr (compute_audit_hash lib r)))"
  unfolding verify_audit_hash_def Let_def compute_audit_hash_audit_hash
  by (simp add: compute_audit_hash_strip hexdigest_truthy del: py_truthy.simps)

lemma verify_signature:
  "verify_audit_hash lib (r(''signature'' := x)) = verify_audit_hash lib r"
  unfolding verify_audit_hash_def Let_def compute_audit_hash_signature
  by simp

lemma make_decision_record_stored:
  "\<exists>r. make_decision_record lib uuid4_hex now_iso decision ensure_ids
         = r(''audit_hash'' \<mapsto> PStr (compute_audit_hash lib r))"
  unfolding make_decision_record_def Let_def by (rule exI) (rule refl)







text \<open>
  C9: for a record whose audit\_hash is the string h, signing returns the record with the
  field signature set to the block of signed\_by, signature\_hash and signed\_at, where
  signature\_hash is the hexadecimal SHA-256 digest of h, a bar and the signer; every other
  field, audit\_hash included, is as before, and the signed record verifies exactly when the
  record did, so that a sealed record still verifies after signing; for a record without
  an audit\_hash, signing fails with the ValueError of the missing audit hash.
\<close>

theorem C9_sign_decision:
  "(decision ''audit_hash'' = Some (PStr h) \<longrightarrow>
      (let block = PDict [(''signed_by'', PStr signer),
                          (''signature_hash'',
                             PStr (hexdigest (lib_sha256 lib (h @ ''|'' @ signer)))),
                          (''signed_at'', PStr now_iso)];
           signed = decision(''signature'' \<mapsto> block)
       in sign_decision lib now_iso decision signer = Inr signed
          \<and> signed ''audit_hash'' = Some (PStr h)
          \<and> (\<forall>k. k \<noteq> ''signature'' \<longrightarrow> signed k = decision k)
          \<and> verify_audit_hash lib signed = verify_audit_hash lib decision))
   \<and> (\<exists>signed. sign_decision lib now_iso
                   (make_decision_record lib uuid4_hex sealed_at draft ensure_ids) signer
                 = Inr signed
               \<and> verify_audit_hash lib signed)
   \<and> (decision ''audit_hash'' = None \<longrightarrow>
        sign_decision lib now_iso decision signer
          = Inl (ValueError (''Decision must include '' @ [CHR 0x27] @ ''audit_hash''
                              @ [CHR 0x27] @ '' before signing.'')))"
proof (intro conjI impI)
  assume h: "decision ''audit_hash'' = Some (PStr h)"
  define block where
    "block = PDict [(''signed_by'', PStr signer),
                    (''signature_hash'', PStr (hexdigest (lib_sha256 lib (h @ ''|'' @ signer)))),
                    (''signed_at'', PStr now_iso)]"
  have 1: "sign_decision lib now_iso decision signer = Inr (decision(''signature'' \<mapsto> block))"
    using h by (simp add: sign_decision_def Let_def block_def)
  have 2: "(decision(''signature'' \<mapsto> block)) ''audit_hash'' = Some (PStr h)"
    using h by simp
  have 3: "\<forall>k. k \<noteq> ''signature'' \<longrightarrow> (decision(''signature'' \<mapsto> block)) k = decision k"
    by simp
  have 4: "verify_audit_hash lib (decision(''signature'' \<mapsto> block))
             = verify_audit_hash lib decision"
    by (rule verify_signature)
  from 1 2 3 4
  show "let block = PDict [(''signed_by'', PStr signer),
                          (''signature_hash'',
                             PStr (hexdigest (lib_sha256 lib (h @ ''|'' @ signer)))),
                          (''signed_at'', PStr now_iso)];
           signed = decision(''signature'' \<mapsto> block)
       in sign_decision lib now_iso decision signer = Inr signed
          \<and> signed ''audit_hash'' = Some (PStr h)
          \<and> (\<forall>k. k \<noteq> ''signature'' \<longrightarrow> signed k = decision k)
          \<and> verify_audit_hash lib signed = verify_audit_hash lib decision"
    unfolding Let_def block_def by (intro conjI)
next
  from make_decision_record_stored [of lib uuid4_hex sealed_at draft ensure_ids]
  obtain r where r: "make_decision_record lib uuid4_hex sealed_at draft ensure_ids
                       = r(''audit_hash'' \<mapsto> PStr (compute_audit_hash lib r))" ..
  define block where
    "block = PDict [(''signed_by'', PStr signer),
                    (''signature_hash'',
                       PStr (hexdigest (lib_sha256 lib (compute_audit_hash lib r @ ''|'' @ signer)))),
                    (''signed_at'', PStr now_iso)]"
  have "sign_decision lib now_iso (r(''audit_hash'' \<mapsto> PStr (compute_audit_hash lib r))) signer
          = Inr ((r(''audit_hash'' \<mapsto> PStr (compute_audit_hash lib r)))(''signature'' \<mapsto> block))"
    by (simp add: sign_decision_def Let_def block_def)
  moreover have "verify_audit_hash lib
      ((r(''audit_hash'' \<mapsto> PStr (compute_audit_hash lib r)))(''signature'' \<mapsto> block))"
    unfolding verify_signature by (rule verify_stored)
  ultimately
  show "\<exists>signed. sign_decision lib now_iso
                   (make_decision_record lib uuid4_hex sealed_at draft ensure_ids) signer
                 = Inr signed
               \<and> verify_audit_hash lib signed"
    unfolding r by (intro exI conjI)
next
  assume "decision ''audit_hash'' = None"
  then show "sign_decision lib now_iso decision signer
          = Inl (ValueError (''Decision must include '' @ [CHR 0x27] @ ''audit_hash''
                              @ [CHR 0x27] @ '' before signing.''))"
    by (simp add: sign_decision_def)
qed

theorem C9_sign_decision_witness:
  "(test_record(''audit_hash'' \<mapsto> PStr ''abc'')) ''audit_hash'' = Some (PStr ''abc'')
   \<and> sign_decision test_audit_lib ''2024-01-02T00:00:00+00:00''
        (test_record(''audit_hash'' \<mapsto> PStr ''abc'')) ''alice''
      = Inr ((test_record(''audit_hash'' \<mapsto> PStr ''abc''))
               (''signature'' \<mapsto>
                  PDict [(''signed_by'', PStr ''alice''),
                         (''signature_hash'',
                            PStr (hexdigest (lib_sha256 test_audit_lib ''abc|alice''))),
                         (''signed_at'', PStr ''2024-01-02T00:00:00+00:00'')]))
   \<and> test_record ''audit_hash'' = None
   \<and> sign_decision test_audit_lib ''2024-01-02T00:00:00+00:00'' test_record ''alice''
      = Inl (ValueError (''Decision must include '' @ [CHR 0x27] @ ''audit_hash''
                          @ [CHR 0x27] @ '' before signing.''))"
  using C9_sign_decision [where decision = "test_record(''audit_hash'' \<mapsto> PStr ''abc'')"
          and h = "''abc''" and lib = test_audit_lib and signer = "''alice''"
          and now_iso = "''2024-01-02T00:00:00+00:00''"]
        C9_sign_decision [where decision = test_record and lib = test_audit_lib
          and signer = "''alice''" and now_iso = "''2024-01-02T00:00:00+00:00''"]
  by (simp add: test_record_def Let_def)

end
